theory Spec2Isabelle
  imports Complex_Main
begin

section \<open>MuonTrackProducer: data model\<close>

text \<open>
  The module keeps all its working data in \<^verbatim>\<open>vector<vector<int>>\<close>: a point of a bucket is
  the vector \<^verbatim>\<open>{wire, peakT, hit index}\<close>, a cleared point is the empty vector, a Hough line
  is the ten-element vector
  \<^verbatim>\<open>{x0, y0, x1, y1, wire0, wire1, idx0, idx1, rho, theta}\<close> and a voided line is the
  empty vector. The model keeps this representation: \<open>int list\<close> for \<^verbatim>\<open>vector<int>\<close>.

  C++ \<^verbatim>\<open>int\<close> is modelled by the unbounded \<open>int\<close> (wire numbers, time ticks and hit
  indices are far from the 32-bit limits), \<^verbatim>\<open>double\<close> and \<^verbatim>\<open>float\<close> by \<open>real\<close>
  with exact arithmetic.
\<close>

datatype error =
    OutOfRange      \<comment> \<open>a vector read or write outside the vector\<close>
  | AccuOutOfRange  \<comment> \<open>a read or write outside the vote accumulator\<close>

text \<open>\<^verbatim>\<open>v.at(i)\<close> with an \<^verbatim>\<open>int\<close> index: throws outside the vector. The unchecked
  \<^verbatim>\<open>v[i]\<close> is undefined behaviour there; the model reports both as \<open>OutOfRange\<close>.\<close>

definition at_idx :: "'a list \<Rightarrow> int \<Rightarrow> error + 'a" where
  "at_idx v i = (if 0 \<le> i \<and> i < int (length v) then Inr (v ! nat i) else Inl OutOfRange)"

definition ebind :: "error + 'a \<Rightarrow> ('a \<Rightarrow> error + 'b) \<Rightarrow> error + 'b" where
  "ebind m f = (case m of Inl e \<Rightarrow> Inl e | Inr v \<Rightarrow> f v)"

text \<open>A counted loop \<^verbatim>\<open>for (i = ...; ...; i++)\<close> over the listed indices, stopping at the
  first error.\<close>

fun for_loop :: "nat list \<Rightarrow> (nat \<Rightarrow> 's \<Rightarrow> error + 's) \<Rightarrow> 's \<Rightarrow> error + 's" where
  "for_loop [] body s = Inr s"
| "for_loop (i # is) body s =
     (case body i s of Inl e \<Rightarrow> Inl e | Inr s' \<Rightarrow> for_loop is body s')"

text \<open>\<^verbatim>\<open>geo::Point_t\<close>: three doubles, default-constructed as the origin.\<close>

record Point_t =
  X :: real
  Y :: real
  Z :: real

definition origin :: Point_t where
  "origin = \<lparr>X = 0, Y = 0, Z = 0\<rparr>"

definition Mag2 :: "Point_t \<Rightarrow> real" where
  "Mag2 p = X p * X p + Y p * Y p + Z p * Z p"

definition SetX :: "real \<Rightarrow> Point_t \<Rightarrow> Point_t" where
  "SetX v p = p\<lparr>X := v\<rparr>"

definition SetY :: "real \<Rightarrow> Point_t \<Rightarrow> Point_t" where
  "SetY v p = p\<lparr>Y := v\<rparr>"

definition SetZ :: "real \<Rightarrow> Point_t \<Rightarrow> Point_t" where
  "SetZ v p = p\<lparr>Z := v\<rparr>"

text \<open>\<^verbatim>\<open>geo::WireID\<close> and the part of \<^verbatim>\<open>recob::Hit\<close> the module reads.\<close>

record WireID =
  TPC :: nat
  Plane :: nat
  Wire :: nat

record Hit =
  HitWireID :: WireID
  PeakTime :: real

text \<open>\<^verbatim>\<open>sbnd::comm::MuonTrack\<close>.\<close>

record MuonTrack =
  t0_us :: real
  x1_pos :: real
  y1_pos :: real
  z1_pos :: real
  x2_pos :: real
  y2_pos :: real
  z2_pos :: real
  theta_xz :: real
  theta_yz :: real
  tpc :: int
  type :: int

text \<open>An entry of \<^verbatim>\<open>art::Assns<recob::Hit, sbnd::comm::MuonTrack>\<close>: the key of the hit
  pointer (its index in the event's hit collection) and the index of the track in the
  track collection.\<close>

type_synonym assn = "nat \<times> nat"

definition PI :: real where
  "PI = 3.14159265"

text \<open>Conversions \<^verbatim>\<open>int(double)\<close> (truncation towards zero) and \<^verbatim>\<open>float(double)\<close>
  (taken as exact).\<close>

definition trunc :: "real \<Rightarrow> int" where
  "trunc x = (if 0 \<le> x then \<lfloor>x\<rfloor> else \<lceil>x\<rceil>)"

definition to_float :: "real \<Rightarrow> real" where
  "to_float x = x"

text \<open>\<^verbatim>\<open>atan2(y, x)\<close> of the C library on finite arguments.\<close>

definition atan2 :: "real \<Rightarrow> real \<Rightarrow> real" where
  "atan2 y x =
     (if 0 < x then arctan (y / x)
      else if x < 0 then (if 0 \<le> y then arctan (y / x) + pi else arctan (y / x) - pi)
      else if 0 < y then pi / 2
      else if y < 0 then - (pi / 2)
      else 0)"

section \<open>Hough\<close>

text \<open>
  The constants of \<^verbatim>\<open>Hough\<close>: \<^verbatim>\<open>h = 3500\<close>, \<^verbatim>\<open>w = 2000\<close>,
  \<^verbatim>\<open>accu_h = h + w + 1\<close>, \<^verbatim>\<open>accu_w = 180\<close>, \<^verbatim>\<open>x_c = w/2\<close>, \<^verbatim>\<open>y_c = h/2\<close>.
\<close>

definition accu_h :: int where "accu_h = 3500 + 2000 + 1"
definition accu_w :: int where "accu_w = 180"
definition x_c :: int where "x_c = 2000 div 2"
definition y_c :: int where "y_c = 3500 div 2"

text \<open>
  The accumulator \<^verbatim>\<open>int accu[accu_h][accu_w]\<close> is addressed through
  \<^verbatim>\<open>adata = &accu[(accu_h-1)/2]\<close>: \<^verbatim>\<open>adata[r][j]\<close> is the cell
  \<^verbatim>\<open>accu[(accu_h-1)/2 + r][j]\<close>. The model keeps the cells as a function of \<open>(r, j)\<close>
  and writes out the test that the cell exists; the C++ has no such test, and an access
  that fails it is reported as \<open>AccuOutOfRange\<close>.
\<close>

type_synonym accu = "int \<times> int \<Rightarrow> int"

definition in_accu :: "int \<Rightarrow> int \<Rightarrow> bool" where
  "in_accu r j =
     (0 \<le> (accu_h - 1) div 2 + r \<and> (accu_h - 1) div 2 + r < accu_h \<and> 0 \<le> j \<and> j < accu_w)"

text \<open>\<^verbatim>\<open>round\<close> of the C library: halves away from zero.\<close>

definition cround :: "real \<Rightarrow> int" where
  "cround v = (if 0 \<le> v then \<lfloor>v + 1 / 2\<rfloor> else \<lceil>v - 1 / 2\<rceil>)"

text \<open>\<^verbatim>\<open>int(round((x-x_c)*cos(j*PI/accu_w) + (y-y_c)*sin(j*PI/accu_w)))\<close>\<close>

definition rho_at :: "int \<Rightarrow> int \<Rightarrow> int \<Rightarrow> int" where
  "rho_at x y j =
     cround (real_of_int (x - x_c) * cos (real_of_int j * PI / real_of_int accu_w)
           + real_of_int (y - y_c) * sin (real_of_int j * PI / real_of_int accu_w))"

text \<open>
  \<^verbatim>\<open>int(round((rho - (x1 - x_c)*cos(theta*PI/180.0))/sin(theta*PI/180.0) + y_c))\<close>.
  For \<open>theta = 0\<close> the divisor is \<open>0.0\<close>, the quotient is infinite or not a number, and
  its conversion to \<^verbatim>\<open>int\<close> is not defined by the language. The model takes the integer
  that the platform yields there as the parameter \<open>nfi\<close>, a function of the dividend.
\<close>

definition y_val :: "(real \<Rightarrow> int) \<Rightarrow> int \<Rightarrow> int \<Rightarrow> int \<Rightarrow> int" where
  "y_val nfi rho theta x1 =
     (let num = real_of_int rho - real_of_int (x1 - x_c) * cos (real_of_int theta * PI / 180);
          den = sin (real_of_int theta * PI / 180)
      in if den = 0 then nfi num else cround (num / den + real_of_int y_c))"

text \<open>
  \<^verbatim>\<open>rndgen.Uniform(count)\<close> of a \<^verbatim>\<open>TRandom3\<close> constructed in the call: \<open>count\<close> times the
  next deviate of the generator, converted to \<^verbatim>\<open>int\<close>. The sequence of deviates is the
  parameter \<open>rng\<close>; \<open>k\<close> counts the draws of this call.
\<close>

definition Uniform :: "(nat \<Rightarrow> real) \<Rightarrow> nat \<Rightarrow> nat \<Rightarrow> int" where
  "Uniform rng k count = trunc (real count * rng k)"

text \<open>The loop over all angles that fills the accumulator and tracks the best cell
  (lines 321 to 329); the state is \<open>(accu, max_val, rho, theta)\<close>.\<close>

fun vote :: "int \<Rightarrow> int \<Rightarrow> nat list \<Rightarrow> accu \<times> int \<times> int \<times> int \<Rightarrow> error + (accu \<times> int \<times> int \<times> int)" where
  "vote x y [] s = Inr s"
| "vote x y (j # js) (accu, max_val, rho, theta) =
     (let r = rho_at x y (int j)
      in if in_accu r (int j) then
           (let val = accu (r, int j) + 1;
                accu' = accu((r, int j) := val)
            in if max_val < val then vote x y js (accu', val, r, int j * 180 div accu_w)
               else vote x y js (accu', max_val, rho, theta))
         else Inl AccuOutOfRange)"

text \<open>
  The corridor walk in one direction (the \<^verbatim>\<open>while (gap < max_gap)\<close> loop, lines 340 to
  367), for \<open>k = 0\<close> (\<^verbatim>\<open>i++\<close>) or \<open>k = 1\<close> (\<^verbatim>\<open>i--\<close>). The state is \<open>i\<close>, \<open>gap\<close>, the two
  point lists, \<^verbatim>\<open>endpoint[k]\<close> and \<^verbatim>\<open>lines_idx\<close>. \<^verbatim>\<open>endpoint[k]\<close> always has four
  elements.
\<close>

function walk ::
  "(real \<Rightarrow> int) \<Rightarrow> int \<Rightarrow> int \<Rightarrow> bool \<Rightarrow> int \<Rightarrow> int \<Rightarrow> int \<Rightarrow> nat \<Rightarrow>
   int \<Rightarrow> int \<Rightarrow> int list list \<Rightarrow> int list list \<Rightarrow> int list \<Rightarrow> int list \<Rightarrow>
   error + (int list list \<times> int list list \<times> int list \<times> int list)" where
  "walk nfi max_gap range' save_hits rho theta idx k i gap coords data endpoint_k lines_idx =
     (if gap < max_gap then
        (let i' = (if k = 0 then i + 1 else i - 1);
             p = idx + i'
         in if p = int (length data) \<or> p < 0 then Inr (coords, data, endpoint_k, lines_idx)
            else if \<not> p < int (length data) then Inl OutOfRange
            else if data ! nat p = [] then
              walk nfi max_gap range' save_hits rho theta idx k i' gap coords data endpoint_k lines_idx
            else if length (data ! nat p) < 3 then Inl OutOfRange
            else
              (let x1 = data ! nat p ! 0;
                   y1 = data ! nat p ! 1;
                   wire_idx = data ! nat p ! 2
               in if endpoint_k ! 0 \<noteq> 0 \<and> \<bar>endpoint_k ! 0 - x1\<bar> > 30
                  then Inr (coords, data, endpoint_k, lines_idx)
                  else if \<bar>y_val nfi rho theta x1 - y1\<bar> \<le> range' then
                    (if p < int (length coords) then
                       walk nfi max_gap range' save_hits rho theta idx k i' 0
                         (coords[nat p := []]) (data[nat p := []]) [x1, y1, wire_idx, p]
                         (if save_hits then lines_idx @ [wire_idx] else lines_idx)
                     else Inl OutOfRange)
                  else
                    walk nfi max_gap range' save_hits rho theta idx k i' (gap + 1) coords data
                      endpoint_k lines_idx))
      else Inr (coords, data, endpoint_k, lines_idx))"
  by pat_completeness auto
termination
  by (relation "measure (\<lambda>(nfi, max_gap, range', save_hits, rho, theta, idx, k, i, gap, coords,
        data, endpoint_k, lines_idx).
        if k = 0 then nat (int (length data) - (idx + i)) else nat (idx + i + 1))")
     auto

text \<open>The un-vote (lines 371 to 381). \<open>unvote_point\<close> is the inner loop over the angles,
  \<open>unvote\<close> the loop \<^verbatim>\<open>for (n = deaccu.size()-1; n >= 0; n--)\<close>, counted by \<open>n + 1\<close>.\<close>

fun unvote_point :: "int \<Rightarrow> int \<Rightarrow> nat list \<Rightarrow> accu \<Rightarrow> error + accu" where
  "unvote_point x1 y1 [] accu = Inr accu"
| "unvote_point x1 y1 (m # ms) accu =
     (let r = rho_at x1 y1 (int m)
      in if in_accu r (int m) then unvote_point x1 y1 ms (accu((r, int m) := accu (r, int m) - 1))
         else Inl AccuOutOfRange)"

fun unvote ::
  "(real \<Rightarrow> int) \<Rightarrow> int \<Rightarrow> int \<Rightarrow> int \<Rightarrow> nat \<Rightarrow> accu \<times> int list list \<Rightarrow> error + (accu \<times> int list list)" where
  "unvote nfi range' rho theta 0 s = Inr s"
| "unvote nfi range' rho theta (Suc n) (accu, deaccu) =
     (if n < length deaccu \<and> 2 \<le> length (deaccu ! n) then
        (let x1 = deaccu ! n ! 0;
             y1 = deaccu ! n ! 1;
             yv = y_val nfi rho theta x1
         in if y1 \<ge> yv - range' \<and> y1 \<le> yv + range' then
              (case unvote_point x1 y1 [0 ..< nat accu_w] accu of
                 Inl e \<Rightarrow> Inl e
               | Inr accu' \<Rightarrow>
                   unvote nfi range' rho theta n (accu', take n deaccu @ drop (Suc n) deaccu))
            else unvote nfi range' rho theta n (accu, deaccu))
      else Inl OutOfRange)"

text \<open>The local vectors and the accumulator of one call of \<^verbatim>\<open>Hough\<close>. \<open>h_coords\<close> is the
  by-value parameter \<^verbatim>\<open>coords\<close>, that is the call's own copy of the caller's bucket.\<close>

record hough_state =
  h_coords :: "int list list"
  h_data :: "int list list"
  h_accu :: accu
  h_deaccu :: "int list list"
  h_outlines :: "int list list"
  h_outhit_idx :: "int list list"

text \<open>One iteration of the loop over points (lines 312 to 395), at the given \<open>count\<close>;
  \<open>n\<close> is the number of points, so this is draw \<open>n - count\<close> of the generator.
  \<open>Hough_line\<close> is the part of the iteration after the threshold test (lines 334 to 393).
  The accumulator and the de-accumulator are written in place by the voting loop, so an
  iteration that ends at the threshold test keeps the votes and the new \<open>deaccu\<close> entry.\<close>

definition Hough_line ::
  "(real \<Rightarrow> int) \<Rightarrow> int \<Rightarrow> int \<Rightarrow> bool \<Rightarrow> int \<Rightarrow> int \<Rightarrow> int \<Rightarrow> accu \<Rightarrow> int list list \<Rightarrow>
   hough_state \<Rightarrow> error + hough_state" where
  "Hough_line nfi max_gap range' save_hits rho theta idx accu1 deaccu1 s =
     ebind (walk nfi max_gap range' save_hits rho theta idx 0 0 0 (h_coords s) (h_data s)
              [0, 0, 0, 0] []) (\<lambda>(coords1, data1, endpoint0, lines_idx0).
     ebind (walk nfi max_gap range' save_hits rho theta idx 1 0 0 coords1 data1
              [0, 0, 0, 0] lines_idx0) (\<lambda>(coords2, data2, endpoint1, lines_idx).
     ebind (unvote nfi range' rho theta (length deaccu1) (accu1, deaccu1)) (\<lambda>(accu2, deaccu2).
       (let x0_end = endpoint0 ! 0; y0_end = endpoint0 ! 1;
            x1_end = endpoint1 ! 0; y1_end = endpoint1 ! 1;
            wire0_end = endpoint0 ! 2; wire1_end = endpoint1 ! 2;
            idx0_end = endpoint0 ! 3; idx1_end = endpoint1 ! 3;
            s1 = s\<lparr>h_coords := coords2, h_data := data2, h_accu := accu2, h_deaccu := deaccu2\<rparr>
        in if (x0_end = 0 \<and> y0_end = 0) \<or> (x1_end = 0 \<and> y1_end = 0) then Inr s1
           else Inr (s1\<lparr>h_outlines := h_outlines s @
                         [[x0_end, y0_end, x1_end, y1_end, wire0_end, wire1_end,
                           idx0_end, idx1_end, rho, theta]],
                       h_outhit_idx := (if save_hits then h_outhit_idx s @ [lines_idx]
                                      else h_outhit_idx s)\<rparr>)))))"

definition Hough_iter ::
  "(real \<Rightarrow> int) \<Rightarrow> (nat \<Rightarrow> real) \<Rightarrow> nat \<Rightarrow> int \<Rightarrow> int \<Rightarrow> int \<Rightarrow> bool \<Rightarrow> nat \<Rightarrow>
   hough_state \<Rightarrow> error + hough_state" where
  "Hough_iter nfi rng n threshold max_gap range' save_hits count s =
     (let idx = Uniform rng (n - count) count;
          max_val = threshold - 1
      in ebind (at_idx (h_coords s) idx) (\<lambda>pt.
         if pt = [] then Inr s
         else if length pt < 2 then Inl OutOfRange
         else
           (let x = pt ! 0; y = pt ! 1;
                deaccu1 = h_deaccu s @ [[x, y]]
            in ebind (vote x y [0 ..< nat accu_w] (h_accu s, max_val, 0, 0)) (\<lambda>(accu1, max_val, rho, theta).
               if max_val < threshold then
                 Inr (s\<lparr>h_coords := (h_coords s)[nat idx := []], h_accu := accu1, h_deaccu := deaccu1\<rparr>)
               else Hough_line nfi max_gap range' save_hits rho theta idx accu1 deaccu1 s))))"

fun Hough_loop ::
  "(real \<Rightarrow> int) \<Rightarrow> (nat \<Rightarrow> real) \<Rightarrow> nat \<Rightarrow> int \<Rightarrow> int \<Rightarrow> int \<Rightarrow> bool \<Rightarrow> nat \<Rightarrow>
   hough_state \<Rightarrow> error + hough_state" where
  "Hough_loop nfi rng n threshold max_gap range' save_hits 0 s = Inr s"
| "Hough_loop nfi rng n threshold max_gap range' save_hits (Suc c) s =
     (case Hough_iter nfi rng n threshold max_gap range' save_hits (Suc c) s of
        Inl e \<Rightarrow> Inl e
      | Inr s' \<Rightarrow> Hough_loop nfi rng n threshold max_gap range' save_hits c s')"


subsection \<open>The merge pass (lines 397 to 451)\<close>

text \<open>
  The number of similarity conditions that hold for endpoint \<open>k\<close> of segment \<open>i\<close> and
  endpoint \<open>l\<close> of segment \<open>j\<close>; \<open>oi\<close> and \<open>oj\<close> are \<^verbatim>\<open>outlines[i]\<close> and
  \<^verbatim>\<open>outlines[j]\<close>, \<^verbatim>\<open>xi_coords = {oi[0], oi[2]}\<close>, \<^verbatim>\<open>yi_coords = {oi[1], oi[3]}\<close>.
\<close>

definition counter :: "int list \<Rightarrow> int list \<Rightarrow> nat \<Rightarrow> nat \<Rightarrow> nat" where
  "counter oi oj k l =
     (let var = 100; rho_var = 30; theta_var = 20;
          xi = oi ! (2 * k); yi = oi ! (2 * k + 1);
          xj = oj ! (2 * l); yj = oj ! (2 * l + 1);
          rhoi = oi ! 8; rhoj = oj ! 8;
          thetai = oi ! 9; thetaj = oj ! 9
      in (if xi < xj + var \<and> xi > xj - var then 1 else 0)
       + (if yi < yj + var \<and> yi > yj - var then 1 else 0)
       + (if rhoi < rhoj + rho_var \<and> rhoi > rhoj - rho_var then 1 else 0)
       + (if thetai < thetaj + theta_var \<and> thetai > thetaj - theta_var then 1 else 0))"

text \<open>The first \<open>(k, l)\<close>, in the order of the two nested loops, with at least three
  conditions.\<close>

definition first_match :: "int list \<Rightarrow> int list \<Rightarrow> (nat \<times> nat) option" where
  "first_match oi oj =
     (if counter oi oj 0 0 \<ge> 3 then Some (0, 0)
      else if counter oi oj 0 1 \<ge> 3 then Some (0, 1)
      else if counter oi oj 1 0 \<ge> 3 then Some (1, 0)
      else if counter oi oj 1 1 \<ge> 3 then Some (1, 1)
      else None)"

text \<open>The four assignments to \<^verbatim>\<open>outlines[j]\<close> (lines 420 to 439).\<close>

definition merged :: "int list \<Rightarrow> int list \<Rightarrow> nat \<Rightarrow> nat \<Rightarrow> int list" where
  "merged oi oj k l =
     (if k = 0 then
        (if l = 0 then oj[2 := oi ! 0, 3 := oi ! 1]
         else oj[0 := oi ! 0, 1 := oi ! 1])
      else
        (if l = 0 then oj[2 := oi ! 2, 3 := oi ! 3]
         else oj[0 := oi ! 2, 1 := oi ! 3]))"

text \<open>
  The loop over \<open>j\<close> for one \<open>i\<close>, which ends at the first merge (\<^verbatim>\<open>same\<close>). The reads
  \<^verbatim>\<open>outlines[i][9]\<close> and \<^verbatim>\<open>outlines[j][9]\<close> are unchecked in the C++; the model reports a
  segment with fewer than ten elements as \<open>OutOfRange\<close>.
\<close>

fun merge_j ::
  "bool \<Rightarrow> nat \<Rightarrow> nat list \<Rightarrow> int list list \<times> int list list \<Rightarrow>
   error + (int list list \<times> int list list)" where
  "merge_j save_hits i [] s = Inr s"
| "merge_j save_hits i (j # js) (outlines, outhit_idx) =
     (if length (outlines ! i) < 10 \<or> length (outlines ! j) < 10 then Inl OutOfRange
      else
        (case first_match (outlines ! i) (outlines ! j) of
           None \<Rightarrow> merge_j save_hits i js (outlines, outhit_idx)
         | Some (k, l) \<Rightarrow>
             (let outlines' = (outlines[j := merged (outlines ! i) (outlines ! j) k l])[i := []]
              in if save_hits then
                   (if j < length outhit_idx \<and> i < length outhit_idx then
                      Inr (outlines',
                           (outhit_idx[j := outhit_idx ! j @ outhit_idx ! i])[i := []])
                    else Inl OutOfRange)
                 else Inr (outlines', outhit_idx))))"

definition merge_pass ::
  "bool \<Rightarrow> int list list \<times> int list list \<Rightarrow> error + (int list list \<times> int list list)" where
  "merge_pass save_hits s =
     for_loop [0 ..< length (fst s)]
       (\<lambda>i s'. merge_j save_hits i [Suc i ..< length (fst s')] s') s"

subsection \<open>The length filter (lines 453 to 473) and the whole call\<close>

definition Distance :: "int \<Rightarrow> int \<Rightarrow> int \<Rightarrow> int \<Rightarrow> real" where
  "Distance x1 y1 x2 y2 = sqrt (real_of_int ((x2 - x1)\<^sup>2) + real_of_int ((y2 - y1)\<^sup>2) * 1.0)"

definition filter_step ::
  "int \<Rightarrow> int \<Rightarrow> bool \<Rightarrow> int list list \<Rightarrow> int list list \<Rightarrow> nat \<Rightarrow>
   int list list \<times> int list list \<Rightarrow> error + (int list list \<times> int list list)" where
  "filter_step min_length muon_length save_hits outlines outhit_idx i s =
     (case s of (lines, hit_idx) \<Rightarrow>
      ebind (at_idx outlines (int i)) (\<lambda>ol.
        if ol = [] then Inr (lines, hit_idx)
        else if length ol < 4 then Inl OutOfRange
        else
          (let x0_end = ol ! 0; y0_end = ol ! 1; x1_end = ol ! 2; y1_end = ol ! 3;
               long = (if muon_length \<noteq> 0 then \<bar>y0_end - y1_end\<bar> > muon_length
                       else Distance x0_end y0_end x1_end y1_end > real_of_int min_length)
           in if long then
                (if save_hits then
                   ebind (at_idx outhit_idx (int i)) (\<lambda>h. Inr (lines @ [ol], hit_idx @ [h]))
                 else Inr (lines @ [ol], hit_idx))
              else Inr (lines, hit_idx))))"

text \<open>
  \<^verbatim>\<open>Hough(coords, param, save_hits, nentry, lines, hit_idx)\<close>. \<open>lines\<close> and \<open>hit_idx\<close> are
  reference parameters and are returned updated; \<open>coords\<close> is passed by value. \<open>Hough_run\<close>
  returns, with the two outputs, the value of the call's own \<open>coords\<close> when the function
  returns; the caller never sees it.
\<close>

definition Hough_run ::
  "(real \<Rightarrow> int) \<Rightarrow> (nat \<Rightarrow> real) \<Rightarrow> int list list \<Rightarrow> int list \<Rightarrow> bool \<Rightarrow>
   int list list \<Rightarrow> int list list \<Rightarrow> error + (int list list \<times> int list list \<times> int list list)" where
  "Hough_run nfi rng coords0 param save_hits lines hit_idx =
     ebind (at_idx param 0) (\<lambda>threshold.
     ebind (at_idx param 1) (\<lambda>max_gap.
     ebind (at_idx param 2) (\<lambda>range'.
     ebind (at_idx param 3) (\<lambda>min_length.
     ebind (at_idx param 4) (\<lambda>muon_length.
     ebind (Hough_loop nfi rng (length coords0) threshold max_gap range' save_hits (length coords0)
              \<lparr>h_coords = coords0, h_data = coords0, h_accu = (\<lambda>c. 0), h_deaccu = [],
               h_outlines = [], h_outhit_idx = []\<rparr>) (\<lambda>s.
     ebind (merge_pass save_hits (h_outlines s, h_outhit_idx s)) (\<lambda>(outlines', outhit_idx').
     ebind (for_loop [0 ..< length outlines']
              (filter_step min_length muon_length save_hits outlines' outhit_idx') (lines, hit_idx))
       (\<lambda>(lines', hit_idx'). Inr (h_coords s, lines', hit_idx')))))))))"

definition Hough ::
  "(real \<Rightarrow> int) \<Rightarrow> (nat \<Rightarrow> real) \<Rightarrow> int list list \<Rightarrow> int list \<Rightarrow> bool \<Rightarrow>
   int list list \<Rightarrow> int list list \<Rightarrow> error + (int list list \<times> int list list)" where
  "Hough nfi rng coords0 param save_hits lines hit_idx =
     ebind (Hough_run nfi rng coords0 param save_hits lines hit_idx)
       (\<lambda>(coords', lines', hit_idx'). Inr (lines', hit_idx'))"


section \<open>FindEndpoints and FixEndpoints\<close>

text \<open>
  The geometry service is a collaborator outside this module; the two queries the module
  makes are parameters of the model. \<^verbatim>\<open>WireIDsIntersect(a, b, point)\<close> returns its flag
  and the point it leaves in its reference argument; \<^verbatim>\<open>WireEndPoints(w, end1, end2)\<close>
  returns the two ends of the wire, each array \<^verbatim>\<open>double[3]\<close> read as a point
  (\<open>[0], [1], [2]\<close> as \<open>X, Y, Z\<close>).
\<close>

record geometry =
  WireIDsIntersect :: "WireID \<Rightarrow> WireID \<Rightarrow> bool \<times> Point_t"
  WireEndPoints :: "WireID \<Rightarrow> Point_t \<times> Point_t"

text \<open>\<^verbatim>\<open>FixEndpoints(wire_col, wire_ind, point)\<close>: the flag and the final value of the
  reference argument \<open>point\<close>.\<close>

definition FixEndpoints :: "geometry \<Rightarrow> WireID \<Rightarrow> WireID \<Rightarrow> Point_t \<Rightarrow> bool \<times> Point_t" where
  "FixEndpoints g wire_col wire_ind point =
     (case WireEndPoints g wire_col of (col_end1, col_end2) \<Rightarrow>
      case WireEndPoints g wire_ind of (ind_end1, ind_end2) \<Rightarrow>
        if \<bar>Y ind_end1\<bar> > 198 \<or> \<bar>Y ind_end2\<bar> > 198 then
          (let ind_y = (if \<bar>Y ind_end1\<bar> = 199.792 then Y ind_end1 else Y ind_end2);
               ind_z = (if \<bar>Y ind_end1\<bar> = 199.792 then Z ind_end1 else Z ind_end2)
           in if \<bar>Z col_end1 - ind_z\<bar> < 8
              then (True, SetZ ind_z (SetY ind_y (SetX (X col_end1) point)))
              else (False, point))
        else (False, point))"

text \<open>
  Lines 564 to 582: the two endpoints resolved for the wires of the early pair
  (\<open>awire\<close>) and of the late pair (\<open>cwire\<close>). Each is the intersection point when the
  wires intersect, else the fixed point when \<^verbatim>\<open>FixEndpoints\<close> passes, else the
  default-constructed point.
\<close>

definition resolve_pair ::
  "geometry \<Rightarrow> WireID \<Rightarrow> WireID \<Rightarrow> WireID \<Rightarrow> WireID \<Rightarrow> Point_t \<times> Point_t" where
  "resolve_pair g awire_col awire_ind cwire_col cwire_ind =
     (let (aintersect, apoint) = WireIDsIntersect g awire_col awire_ind;
          (cintersect, cpoint) = WireIDsIntersect g cwire_col cwire_ind;
          endpoint1 =
            (if aintersect then apoint
             else (case FixEndpoints g awire_col awire_ind apoint of
                     (afix, apoint') \<Rightarrow> if afix then apoint' else origin));
          endpoint2 =
            (if cintersect then cpoint
             else (case FixEndpoints g cwire_col cwire_ind cpoint of
                     (cfix, cpoint') \<Rightarrow> if cfix then cpoint' else origin))
      in (endpoint1, endpoint2))"

text \<open>
  The body of the loop over \<open>j\<close> up to the emission test (lines 543 to 583), for the
  primary line \<open>lc\<close> and the secondary line \<open>li\<close>: \<open>None\<close> when nothing is emitted,
  otherwise the two endpoints and the primary line's ordered peak times.
  \<^verbatim>\<open>hitlist[wire0_col]\<close> is unchecked in the C++; outside the hit list the model reports
  \<open>OutOfRange\<close>.
\<close>

definition try_match ::
  "geometry \<Rightarrow> Hit list \<Rightarrow> int \<Rightarrow> int list \<Rightarrow> int list \<Rightarrow>
   error + (Point_t \<times> Point_t \<times> int \<times> int) option" where
  "try_match g hitlist range' lc li =
     ebind (at_idx lc 1) (\<lambda>c1. ebind (at_idx lc 3) (\<lambda>c3.
     ebind (at_idx lc 4) (\<lambda>c4. ebind (at_idx lc 5) (\<lambda>c5.
     ebind (at_idx li 1) (\<lambda>i1. ebind (at_idx li 3) (\<lambda>i3.
     ebind (at_idx li 4) (\<lambda>i4. ebind (at_idx li 5) (\<lambda>i5.
       (let order_col = c1 < c3;
            peakT0_col = (if order_col then c1 else c3);
            peakT1_col = (if order_col then c3 else c1);
            wire0_col = (if order_col then c4 else c5);
            wire1_col = (if order_col then c5 else c4);
            order_ind = i1 < i3;
            peakT0_ind = (if order_ind then i1 else i3);
            peakT1_ind = (if order_ind then i3 else i1);
            wire0_ind = (if order_ind then i4 else i5);
            wire1_ind = (if order_ind then i5 else i4);
            peakT_range = range'
        in if \<bar>peakT0_col - peakT0_ind\<bar> < peakT_range \<and> \<bar>peakT1_col - peakT1_ind\<bar> < peakT_range then
             ebind (at_idx hitlist wire0_col) (\<lambda>ha_col.
             ebind (at_idx hitlist wire0_ind) (\<lambda>ha_ind.
             ebind (at_idx hitlist wire1_col) (\<lambda>hc_col.
             ebind (at_idx hitlist wire1_ind) (\<lambda>hc_ind.
               (case resolve_pair g (HitWireID ha_col) (HitWireID ha_ind)
                       (HitWireID hc_col) (HitWireID hc_ind) of
                  (endpoint1, endpoint2) \<Rightarrow>
                    if Mag2 endpoint1 \<noteq> 0 \<and> Mag2 endpoint2 \<noteq> 0
                    then Inr (Some (endpoint1, endpoint2, peakT0_col, peakT1_col))
                    else Inr None)))))
           else Inr None)))))))))"

text \<open>
  The state of \<^verbatim>\<open>FindEndpoints\<close> is its four written reference parameters
  \<open>(lines_col, muon_endpoints, muon_hitpeakT, muon_hit_idx)\<close>. \<open>FindEndpoints_j\<close> is the
  loop over the secondary lines for the primary line \<open>i\<close>, which ends at the first
  emission (\<^verbatim>\<open>match\<close>); \<open>FindEndpoints_i\<close> is the body of the loop over the primary lines.
\<close>

type_synonym endpoint_state =
  "int list list \<times> Point_t list list \<times> int list list \<times> int list list"

fun FindEndpoints_j ::
  "geometry \<Rightarrow> Hit list \<Rightarrow> int \<Rightarrow> int list list \<Rightarrow> int list list \<Rightarrow> nat \<Rightarrow> nat list \<Rightarrow>
   endpoint_state \<Rightarrow> error + endpoint_state" where
  "FindEndpoints_j g hitlist range' lines_ind hit_idx i [] s = Inr s"
| "FindEndpoints_j g hitlist range' lines_ind hit_idx i (j # js)
     (lines_col, muon_endpoints, muon_hitpeakT, muon_hit_idx) =
     ebind (at_idx lines_col (int i)) (\<lambda>lc.
     ebind (at_idx lines_ind (int j)) (\<lambda>li.
     ebind (try_match g hitlist range' lc li) (\<lambda>r.
       case r of
         None \<Rightarrow> FindEndpoints_j g hitlist range' lines_ind hit_idx i js
                   (lines_col, muon_endpoints, muon_hitpeakT, muon_hit_idx)
       | Some (endpoint1, endpoint2, peakT0_col, peakT1_col) \<Rightarrow>
           ebind (at_idx hit_idx (int i)) (\<lambda>indices.
             Inr (lines_col[i := []],
                  muon_endpoints @ [[endpoint1, endpoint2]],
                  muon_hitpeakT @ [[peakT0_col, peakT1_col]],
                  muon_hit_idx @ [indices])))))"

definition FindEndpoints_i ::
  "geometry \<Rightarrow> Hit list \<Rightarrow> int \<Rightarrow> int list list \<Rightarrow> int list list \<Rightarrow> nat \<Rightarrow>
   endpoint_state \<Rightarrow> error + endpoint_state" where
  "FindEndpoints_i g hitlist range' lines_ind hit_idx i s =
     ebind (at_idx (fst s) (int i)) (\<lambda>lc.
       if lc = [] then Inr s
       else FindEndpoints_j g hitlist range' lines_ind hit_idx i [0 ..< length lines_ind] s)"

definition FindEndpoints ::
  "geometry \<Rightarrow> Hit list \<Rightarrow> int list list \<Rightarrow> int list list \<Rightarrow> int \<Rightarrow>
   endpoint_state \<Rightarrow> error + endpoint_state" where
  "FindEndpoints g hitlist lines_ind hit_idx range' s =
     (if lines_ind \<noteq> [] then
        for_loop [0 ..< length (fst s)] (FindEndpoints_i g hitlist range' lines_ind hit_idx) s
      else Inr s)"


section \<open>SortEndpoints, FindTrajectories, Findt0\<close>

text \<open>
  The body of the loop of \<^verbatim>\<open>SortEndpoints\<close> for one endpoint pair. \<^verbatim>\<open>endpoint1\<close> and
  \<^verbatim>\<open>endpoint2\<close> are local variables of type \<^verbatim>\<open>geo::Point_t\<close>, initialised by copy from
  \<^verbatim>\<open>muon_endpoints.at(i)\<close>. The function returns the type pushed to \<^verbatim>\<open>muon_type\<close> and the
  values the two locals hold when the iteration ends.
\<close>

definition edge :: "Point_t \<Rightarrow> bool" where
  "edge p = (Y p > 198 \<or> Y p < -198 \<or> Z p > 503 \<or> Z p < 6)"

definition SortEndpoints_body :: "Point_t \<Rightarrow> Point_t \<Rightarrow> int \<Rightarrow> int \<times> Point_t \<times> Point_t" where
  "SortEndpoints_body endpoint1 endpoint2 dt =
     (if dt > 2400 then (0, endpoint1, SetX 0 endpoint2)
      else
        let end1_edge = edge endpoint1;
            end2_edge = edge endpoint2
        in if \<not> end1_edge \<and> end2_edge then
             (let dx = real_of_int dt * 0.5 * 0.16;
                  true_x = (if X endpoint2 > 0 then 202.05 - dx else - 202.05 + dx)
              in (1, endpoint1, SetX true_x endpoint2))
           else if end1_edge \<and> \<not> end2_edge then
             (let dx = real_of_int dt * 0.5 * 0.16;
                  true_x = (if X endpoint1 > 0 then 202.05 - dx else - 202.05 + dx)
              in (2, SetX true_x endpoint1, SetX 0 endpoint2))
           else if (Y endpoint1 > 198 \<and> Y endpoint2 < -198) \<or> (Y endpoint1 < -198 \<and> Y endpoint2 > 198)
             then (3, endpoint1, endpoint2)
           else if (Z endpoint1 > 503 \<and> Z endpoint2 < 6) \<or> (Z endpoint1 < 6 \<and> Z endpoint2 > 503)
             then (4, endpoint1, endpoint2)
           else (5, endpoint1, endpoint2))"

text \<open>
  One iteration of \<^verbatim>\<open>SortEndpoints\<close> on the state \<open>(muon_endpoints, muon_type)\<close>, both
  passed by reference. The only write to either is \<^verbatim>\<open>muon_type.push_back\<close>: the locals
  \<^verbatim>\<open>endpoint1\<close>, \<^verbatim>\<open>endpoint2\<close> go out of scope and \<^verbatim>\<open>muon_endpoints\<close> is never assigned.
\<close>

definition SortEndpoints_step ::
  "int list list \<Rightarrow> nat \<Rightarrow> Point_t list list \<times> int list \<Rightarrow> error + (Point_t list list \<times> int list)" where
  "SortEndpoints_step muon_hitpeakT i s =
     (case s of (muon_endpoints, muon_type) \<Rightarrow>
      ebind (at_idx muon_endpoints (int i)) (\<lambda>pair.
      ebind (at_idx pair 0) (\<lambda>endpoint1.
      ebind (at_idx pair 1) (\<lambda>endpoint2.
      ebind (at_idx muon_hitpeakT (int i)) (\<lambda>tt.
      ebind (at_idx tt 1) (\<lambda>t1.
      ebind (at_idx tt 0) (\<lambda>t0.
        (case SortEndpoints_body endpoint1 endpoint2 (t1 - t0) of
           (ty, endpoint1', endpoint2') \<Rightarrow> Inr (muon_endpoints, muon_type @ [ty])))))))))"

definition SortEndpoints ::
  "Point_t list list \<Rightarrow> int list list \<Rightarrow> int list \<Rightarrow> error + (Point_t list list \<times> int list)" where
  "SortEndpoints muon_endpoints muon_hitpeakT muon_type =
     for_loop [0 ..< length muon_endpoints] (SortEndpoints_step muon_hitpeakT)
       (muon_endpoints, muon_type)"

definition FindTrajectories_step ::
  "Point_t list list \<Rightarrow> int list list \<Rightarrow> nat \<Rightarrow> real list list \<Rightarrow> error + real list list" where
  "FindTrajectories_step muon_endpoints muon_hitpeakT i muon_trajectories =
     ebind (at_idx muon_endpoints (int i)) (\<lambda>pair.
     ebind (at_idx muon_hitpeakT (int i)) (\<lambda>tt.
     ebind (at_idx tt 1) (\<lambda>t1.
     ebind (at_idx tt 0) (\<lambda>t0.
     ebind (at_idx pair 1) (\<lambda>p1.
     ebind (at_idx pair 0) (\<lambda>p0.
       (let dt = t1 - t0;
            dx = real_of_int dt * 0.5 * 0.16;
            dy = to_float (Y p1) - to_float (Y p0);
            dz = to_float (Z p1) - to_float (Z p0);
            theta_xz = atan2 dx dz * 180 / PI;
            theta_yz = atan2 dy dz * 180 / PI
        in Inr (muon_trajectories @ [[theta_xz, theta_yz]]))))))))"

definition FindTrajectories ::
  "Point_t list list \<Rightarrow> int list list \<Rightarrow> real list list \<Rightarrow> error + real list list" where
  "FindTrajectories muon_endpoints muon_hitpeakT muon_trajectories =
     for_loop [0 ..< length muon_endpoints]
       (FindTrajectories_step muon_endpoints muon_hitpeakT) muon_trajectories"

definition Findt0_step :: "int list list \<Rightarrow> int list \<Rightarrow> nat \<Rightarrow> real list \<Rightarrow> error + real list" where
  "Findt0_step muon_hitpeakT muon_type i muon_t0 =
     ebind (at_idx muon_type (int i)) (\<lambda>ty.
     ebind (at_idx muon_hitpeakT (int i)) (\<lambda>tt.
       if ty = 0 \<or> ty = 1 then
         ebind (at_idx tt 0) (\<lambda>t. Inr (muon_t0 @ [(real_of_int t - 500) * 0.5]))
       else if ty = 2 then
         ebind (at_idx tt 1) (\<lambda>t. Inr (muon_t0 @ [(real_of_int t - 3000) * 0.5]))
       else Inr (muon_t0 @ [- 500])))"

definition Findt0 :: "int list list \<Rightarrow> int list \<Rightarrow> real list \<Rightarrow> error + real list" where
  "Findt0 muon_hitpeakT muon_type muon_t0 =
     for_loop [0 ..< length muon_hitpeakT] (Findt0_step muon_hitpeakT muon_type) muon_t0"

section \<open>Track assembly (produce, after the endpoint matching)\<close>

text \<open>
  \<^verbatim>\<open>util::CreateAssn(*this, evt, *muon_tracks, hitlist[hit_i], *muon_tracks_assn)\<close>
  associates the given hit pointer with the last track of \<^verbatim>\<open>muon_tracks\<close>. The pointer
  \<^verbatim>\<open>hitlist[k]\<close> has key \<open>k\<close> (\<^verbatim>\<open>art::fill_ptr_vector\<close>).
\<close>

definition CreateAssn :: "MuonTrack list \<Rightarrow> nat \<Rightarrow> assn list \<Rightarrow> assn list" where
  "CreateAssn muon_tracks hit_key muon_tracks_assn =
     muon_tracks_assn @ [(hit_key, length muon_tracks - 1)]"

text \<open>The loop \<^verbatim>\<open>for (hit_i = 0; hit_i < track_hit_idx.size(); hit_i++)\<close>: the hit passed
  to \<^verbatim>\<open>CreateAssn\<close> is \<^verbatim>\<open>hitlist[hit_i]\<close>.\<close>

definition assn_step :: "Hit list \<Rightarrow> MuonTrack list \<Rightarrow> nat \<Rightarrow> assn list \<Rightarrow> error + assn list" where
  "assn_step hitlist muon_tracks hit_i muon_tracks_assn =
     ebind (at_idx hitlist (int hit_i)) (\<lambda>h.
       Inr (CreateAssn muon_tracks hit_i muon_tracks_assn))"

definition keep_track_of :: "int list \<Rightarrow> int \<Rightarrow> bool" where
  "keep_track_of fKeepMuonTypes track_type = (\<exists>t \<in> set fKeepMuonTypes. track_type = t)"

definition track_step ::
  "int list \<Rightarrow> Hit list \<Rightarrow> Point_t list list \<Rightarrow> int list \<Rightarrow> int list list \<Rightarrow> real list \<Rightarrow>
   real list list \<Rightarrow> nat \<Rightarrow> MuonTrack list \<times> assn list \<Rightarrow> error + (MuonTrack list \<times> assn list)" where
  "track_step fKeepMuonTypes hitlist muon_endpoints muon_type muon_hit_idx muon_t0
     muon_trajectories i s =
     (case s of (muon_tracks, muon_tracks_assn) \<Rightarrow>
      ebind (at_idx muon_type (int i)) (\<lambda>track_type.
      ebind (at_idx muon_hit_idx (int i)) (\<lambda>track_hit_idx.
        if keep_track_of fKeepMuonTypes track_type then
          ebind (at_idx muon_endpoints (int i)) (\<lambda>pair.
          ebind (at_idx pair 0) (\<lambda>endpoint1.
          ebind (at_idx pair 1) (\<lambda>endpoint2.
          ebind (at_idx muon_t0 (int i)) (\<lambda>t0.
          ebind (at_idx muon_trajectories (int i)) (\<lambda>traj.
          ebind (at_idx traj 0) (\<lambda>txz.
          ebind (at_idx traj 1) (\<lambda>tyz.
            (let mytrack = \<lparr>t0_us = t0,
                            x1_pos = to_float (X endpoint1),
                            y1_pos = to_float (Y endpoint1),
                            z1_pos = to_float (Z endpoint1),
                            x2_pos = to_float (X endpoint2),
                            y2_pos = to_float (Y endpoint2),
                            z2_pos = to_float (Z endpoint2),
                            theta_xz = txz, theta_yz = tyz,
                            tpc = (if X endpoint1 < 0 then 0 else 1),
                            type = track_type\<rparr>;
                 muon_tracks' = muon_tracks @ [mytrack]
             in ebind (for_loop [0 ..< length track_hit_idx] (assn_step hitlist muon_tracks')
                        muon_tracks_assn)
                  (\<lambda>assn'. Inr (muon_tracks', assn'))))))))))
        else Inr (muon_tracks, muon_tracks_assn))))"

text \<open>Lines 236 to 274 of \<^verbatim>\<open>produce\<close>: classification, angles, reference time and the
  loop that fills the two output collections.\<close>

definition make_tracks ::
  "int list \<Rightarrow> Hit list \<Rightarrow> Point_t list list \<Rightarrow> int list list \<Rightarrow> int list list \<Rightarrow>
   MuonTrack list \<times> assn list \<Rightarrow> error + (MuonTrack list \<times> assn list)" where
  "make_tracks fKeepMuonTypes hitlist muon_endpoints muon_hitpeakT muon_hit_idx out =
     (if muon_endpoints \<noteq> [] then
        ebind (SortEndpoints muon_endpoints muon_hitpeakT []) (\<lambda>(muon_endpoints', muon_type).
        ebind (FindTrajectories muon_endpoints' muon_hitpeakT []) (\<lambda>muon_trajectories.
        ebind (Findt0 muon_hitpeakT muon_type []) (\<lambda>muon_t0.
          for_loop [0 ..< length muon_endpoints']
            (track_step fKeepMuonTypes hitlist muon_endpoints' muon_type muon_hit_idx muon_t0
               muon_trajectories) out)))
      else Inr out)"

section \<open>PointBucket filling (produce, the two hit loops)\<close>

text \<open>Lines 176 to 186: the collection-plane buckets \<^verbatim>\<open>hit_02\<close>, \<^verbatim>\<open>hit_12\<close>. The loop
  index runs below \<^verbatim>\<open>nhits = hitlist.size()\<close>, so \<^verbatim>\<open>hitlist[i]\<close> is in range.\<close>

definition collection_step ::
  "Hit list \<Rightarrow> int list list \<times> int list list \<Rightarrow> nat \<Rightarrow> int list list \<times> int list list" where
  "collection_step hitlist s i =
     (case s of (hit_02, hit_12) \<Rightarrow>
      let wireid = HitWireID (hitlist ! i);
          hit_wire = int (Wire wireid);
          hit_peakT = trunc (PeakTime (hitlist ! i));
          hit_plane = Plane wireid;
          hit_tpc = TPC wireid
      in if hit_plane = 2 \<and> hit_peakT > 0 then
           (let v = [hit_wire, hit_peakT, int i]
            in if hit_tpc = 0 then (hit_02 @ [v], hit_12) else (hit_02, hit_12 @ [v]))
         else (hit_02, hit_12))"

definition fill_collection :: "Hit list \<Rightarrow> nat \<Rightarrow> int list list \<times> int list list" where
  "fill_collection hitlist nhits = foldl (collection_step hitlist) ([], []) [0 ..< nhits]"

text \<open>Lines 203 to 219: the induction-plane buckets \<^verbatim>\<open>hit_00\<close>, \<^verbatim>\<open>hit_01\<close>, \<^verbatim>\<open>hit_10\<close>,
  \<^verbatim>\<open>hit_11\<close>. The TPC-1 branch is the \<^verbatim>\<open>else if\<close> of the TPC-0 branch.\<close>

definition induction_step ::
  "Hit list \<Rightarrow> bool \<Rightarrow> bool \<Rightarrow>
   int list list \<times> int list list \<times> int list list \<times> int list list \<Rightarrow> nat \<Rightarrow>
   int list list \<times> int list list \<times> int list list \<times> int list list" where
  "induction_step hitlist muon_in_tpc0 muon_in_tpc1 s i =
     (case s of (hit_00, hit_01, hit_10, hit_11) \<Rightarrow>
      let wireid = HitWireID (hitlist ! i);
          hit_wire = int (Wire wireid);
          hit_peakT = trunc (PeakTime (hitlist ! i));
          hit_tpc = TPC wireid;
          hit_plane = Plane wireid;
          v = [hit_wire, hit_peakT, int i]
      in if muon_in_tpc0 then
           (if hit_plane = 0 \<and> hit_tpc = 0 \<and> hit_peakT > 0 then (hit_00 @ [v], hit_01, hit_10, hit_11)
            else if hit_plane = 1 \<and> hit_tpc = 0 \<and> hit_peakT > 0 then (hit_00, hit_01 @ [v], hit_10, hit_11)
            else (hit_00, hit_01, hit_10, hit_11))
         else if muon_in_tpc1 then
           (if hit_plane = 0 \<and> hit_tpc = 1 \<and> hit_peakT > 0 then (hit_00, hit_01, hit_10 @ [v], hit_11)
            else if hit_plane = 1 \<and> hit_tpc = 1 \<and> hit_peakT > 0 then (hit_00, hit_01, hit_10, hit_11 @ [v])
            else (hit_00, hit_01, hit_10, hit_11))
         else (hit_00, hit_01, hit_10, hit_11))"

definition fill_induction ::
  "Hit list \<Rightarrow> nat \<Rightarrow> bool \<Rightarrow> bool \<Rightarrow>
   int list list \<times> int list list \<times> int list list \<times> int list list" where
  "fill_induction hitlist nhits muon_in_tpc0 muon_in_tpc1 =
     foldl (induction_step hitlist muon_in_tpc0 muon_in_tpc1) ([], [], [], []) [0 ..< nhits]"


section \<open>produce\<close>

text \<open>The parameters read by \<^verbatim>\<open>reconfigure\<close>.\<close>

record config =
  fHoughThreshold :: int
  fHoughMaxGap :: int
  fHoughRange :: int
  fHoughMinLength :: int
  fHoughMuonLength :: int
  fEndpointRange :: int
  fKeepMuonTypes :: "int list"

text \<open>The member vectors of the class that \<^verbatim>\<open>produce\<close> fills: the six buckets, the
  lines and member lists found in them, and the matched endpoint pairs.\<close>

record producer =
  hit_02 :: "int list list"
  hit_12 :: "int list list"
  lines_02 :: "int list list"
  lines_12 :: "int list list"
  hit_idx_02 :: "int list list"
  hit_idx_12 :: "int list list"
  hit_00 :: "int list list"
  hit_01 :: "int list list"
  hit_10 :: "int list list"
  hit_11 :: "int list list"
  lines_00 :: "int list list"
  lines_01 :: "int list list"
  lines_10 :: "int list list"
  lines_11 :: "int list list"
  muon_endpoints :: "Point_t list list"
  muon_hitpeakT :: "int list list"
  muon_hit_idx :: "int list list"

text \<open>The members after \<^verbatim>\<open>ResetCollectionHitVectors\<close>, \<^verbatim>\<open>ResetInductionHitVectors\<close> and
  \<^verbatim>\<open>ResetMuonVariables\<close>.\<close>

definition reset :: producer where
  "reset = \<lparr>hit_02 = [], hit_12 = [], lines_02 = [], lines_12 = [], hit_idx_02 = [],
            hit_idx_12 = [], hit_00 = [], hit_01 = [], hit_10 = [], hit_11 = [],
            lines_00 = [], lines_01 = [], lines_10 = [], lines_11 = [],
            muon_endpoints = [], muon_hitpeakT = [], muon_hit_idx = []\<rparr>"

definition HoughParam :: "config \<Rightarrow> int list" where
  "HoughParam cfg = [fHoughThreshold cfg, fHoughMaxGap cfg, fHoughRange cfg,
                     fHoughMinLength cfg, fHoughMuonLength cfg]"

text \<open>Lines 192 and 193: the two collection-plane calls. Each call receives a copy of the
  bucket and writes the members \<^verbatim>\<open>lines_*\<close> and \<^verbatim>\<open>hit_idx_*\<close> it has by reference.\<close>

definition collection_hough ::
  "(real \<Rightarrow> int) \<Rightarrow> (nat \<Rightarrow> real) \<Rightarrow> config \<Rightarrow> producer \<Rightarrow> error + producer" where
  "collection_hough nfi rng cfg st =
     ebind (Hough nfi rng (hit_02 st) (HoughParam cfg) True (lines_02 st) (hit_idx_02 st))
       (\<lambda>(l0, h0).
     ebind (Hough nfi rng (hit_12 st) (HoughParam cfg) True (lines_12 st) (hit_idx_12 st))
       (\<lambda>(l1, h1).
       Inr (st\<lparr>lines_02 := l0, hit_idx_02 := h0, lines_12 := l1, hit_idx_12 := h1\<rparr>)))"

definition endpoint_state_of :: "int list list \<Rightarrow> producer \<Rightarrow> endpoint_state" where
  "endpoint_state_of lines_col st = (lines_col, muon_endpoints st, muon_hitpeakT st, muon_hit_idx st)"

text \<open>Lines 222 to 228: the induction-plane calls and the endpoint matching of TPC 0.
  \<open>ind_empty\<close> is the placeholder vector handed to the calls as \<^verbatim>\<open>hit_idx\<close>.\<close>

definition tpc0_stage ::
  "geometry \<Rightarrow> (real \<Rightarrow> int) \<Rightarrow> (nat \<Rightarrow> real) \<Rightarrow> config \<Rightarrow> Hit list \<Rightarrow>
   producer \<times> int list list \<Rightarrow> error + (producer \<times> int list list)" where
  "tpc0_stage g nfi rng cfg hitlist s =
     (case s of (st, ind_empty) \<Rightarrow>
      ebind (Hough nfi rng (hit_00 st) (HoughParam cfg) False (lines_00 st) ind_empty) (\<lambda>(l0, e0).
      ebind (Hough nfi rng (hit_01 st) (HoughParam cfg) False (lines_01 st) e0) (\<lambda>(l1, e1).
      ebind (FindEndpoints g hitlist l0 (hit_idx_02 st) (fEndpointRange cfg)
               (endpoint_state_of (lines_02 st) st)) (\<lambda>(lc, me, mt, mh).
      ebind (FindEndpoints g hitlist l1 (hit_idx_02 st) (fEndpointRange cfg) (lc, me, mt, mh))
        (\<lambda>(lc', me', mt', mh').
          Inr (st\<lparr>lines_00 := l0, lines_01 := l1, lines_02 := lc', muon_endpoints := me',
                  muon_hitpeakT := mt', muon_hit_idx := mh'\<rparr>, e1))))))"

text \<open>Lines 229 to 235: the same for TPC 1.\<close>

definition tpc1_stage ::
  "geometry \<Rightarrow> (real \<Rightarrow> int) \<Rightarrow> (nat \<Rightarrow> real) \<Rightarrow> config \<Rightarrow> Hit list \<Rightarrow>
   producer \<times> int list list \<Rightarrow> error + (producer \<times> int list list)" where
  "tpc1_stage g nfi rng cfg hitlist s =
     (case s of (st, ind_empty) \<Rightarrow>
      ebind (Hough nfi rng (hit_10 st) (HoughParam cfg) False (lines_10 st) ind_empty) (\<lambda>(l0, e0).
      ebind (Hough nfi rng (hit_11 st) (HoughParam cfg) False (lines_11 st) e0) (\<lambda>(l1, e1).
      ebind (FindEndpoints g hitlist l0 (hit_idx_12 st) (fEndpointRange cfg)
               (endpoint_state_of (lines_12 st) st)) (\<lambda>(lc, me, mt, mh).
      ebind (FindEndpoints g hitlist l1 (hit_idx_12 st) (fEndpointRange cfg) (lc, me, mt, mh))
        (\<lambda>(lc', me', mt', mh').
          Inr (st\<lparr>lines_10 := l0, lines_11 := l1, lines_12 := lc', muon_endpoints := me',
                  muon_hitpeakT := mt', muon_hit_idx := mh'\<rparr>, e1))))))"

text \<open>
  \<^verbatim>\<open>produce(evt)\<close>. The event is its hit collection, \<open>None\<close> when \<^verbatim>\<open>getByLabel\<close> fails.
  The result is the final value of the members and the two collections put into the
  event.
\<close>

definition produce ::
  "geometry \<Rightarrow> (real \<Rightarrow> int) \<Rightarrow> (nat \<Rightarrow> real) \<Rightarrow> config \<Rightarrow> Hit list option \<Rightarrow>
   error + (producer \<times> MuonTrack list \<times> assn list)" where
  "produce g nfi rng cfg evt =
     (let hitlist = (case evt of Some hl \<Rightarrow> hl | None \<Rightarrow> []);
          nhits = (case evt of Some hl \<Rightarrow> length hl | None \<Rightarrow> 0);
          (h02, h12) = fill_collection hitlist nhits;
          st0 = reset\<lparr>hit_02 := h02, hit_12 := h12\<rparr>
      in ebind (collection_hough nfi rng cfg st0) (\<lambda>st1.
         let muon_in_tpc0 = (lines_02 st1 \<noteq> []);
             muon_in_tpc1 = (lines_12 st1 \<noteq> [])
         in if muon_in_tpc0 \<or> muon_in_tpc1 then
              (let (h00, h01, h10, h11) = fill_induction hitlist nhits muon_in_tpc0 muon_in_tpc1;
                   st2 = st1\<lparr>hit_00 := h00, hit_01 := h01, hit_10 := h10, hit_11 := h11\<rparr>
               in ebind (if muon_in_tpc0 then tpc0_stage g nfi rng cfg hitlist (st2, [])
                         else Inr (st2, [])) (\<lambda>s3.
                  ebind (if muon_in_tpc1 then tpc1_stage g nfi rng cfg hitlist s3
                         else Inr s3) (\<lambda>(st4, ind_empty).
                  ebind (make_tracks (fKeepMuonTypes cfg) hitlist (muon_endpoints st4)
                           (muon_hitpeakT st4) (muon_hit_idx st4) ([], []))
                    (\<lambda>(muon_tracks, muon_tracks_assn). Inr (st4, muon_tracks, muon_tracks_assn)))))
            else Inr (st1, [], [])))"

section \<open>Predicates of the statements\<close>

text \<open>The points of a bucket lie in the window the accumulator is sized for: three
  elements, wire in \<open>0 .. w\<close>, time in \<open>0 .. h\<close>.\<close>

definition in_window :: "int list \<Rightarrow> bool" where
  "in_window p = (length p = 3 \<and> 0 \<le> p ! 0 \<and> p ! 0 \<le> 2000 \<and> 0 \<le> p ! 1 \<and> p ! 1 \<le> 3500)"

definition in_domain :: "int list list \<Rightarrow> bool" where
  "in_domain bucket = list_all in_window bucket"

text \<open>The deviates of the generator lie in the unit interval, \<open>1\<close> excluded.\<close>

definition unit_rng :: "(nat \<Rightarrow> real) \<Rightarrow> bool" where
  "unit_rng rng = (\<forall>k. 0 \<le> rng k \<and> rng k < 1)"

text \<open>Segment lists \<open>a\<close> (before) and \<open>b\<close> (after): every segment of \<open>b\<close> is voided or has
  the length and the elements from position 4 on of the segment of \<open>a\<close> at its index.\<close>

definition tail_kept :: "int list list \<Rightarrow> int list list \<Rightarrow> bool" where
  "tail_kept a b =
     (length b = length a \<and>
      (\<forall>m < length a. b ! m = [] \<or>
         (length (b ! m) = length (a ! m) \<and> drop 4 (b ! m) = drop 4 (a ! m))))"


text \<open>An endpoint pair has two points, both of nonzero squared magnitude.\<close>

definition good_pair :: "Point_t list \<Rightarrow> bool" where
  "good_pair pr = (length pr = 2 \<and> Mag2 (pr ! 0) \<noteq> 0 \<and> Mag2 (pr ! 1) \<noteq> 0)"

section \<open>Theorems\<close>

lemma ebind_Inr [simp]: "ebind (Inr v) f = f v"
  by (simp add: ebind_def)

lemma ebind_Inl [simp]: "ebind (Inl e) f = Inl e"
  by (simp add: ebind_def)

lemma at_Cons_0 [simp]: "at_idx (x # xs) 0 = Inr x"
  by (simp add: at_idx_def)

lemma at_Cons_1 [simp]: "at_idx (x # y # xs) 1 = Inr y"
  by (simp add: at_idx_def)

lemma upt_0_2: "[0 ..< 2] = [0, Suc 0]"
  by (simp add: upt_rec)

lemmas track_defs =
  make_tracks_def SortEndpoints_def SortEndpoints_step_def SortEndpoints_body_def
  FindTrajectories_def FindTrajectories_step_def Findt0_def Findt0_step_def track_step_def
  keep_track_of_def assn_step_def CreateAssn_def to_float_def SetX_def at_idx_def Let_def

subsection \<open>C1: the long-crossing class and the later endpoint's depth\<close>

text \<open>
  C1 says that a pair with \<open>dt > 2400\<close> is typed 0 (anode-cathode crosser) and that the
  emitted track's later endpoint has depth \<open>x = 0\<close>. \<^verbatim>\<open>SortEndpoints\<close> does call
  \<^verbatim>\<open>endpoint2.SetX(0)\<close>, but on its local copy; \<^verbatim>\<open>muon_endpoints\<close> keeps the matcher's
  point and \<^verbatim>\<open>produce\<close> copies that into \<^verbatim>\<open>x2_pos\<close>. For the pair with endpoints
  \<open>(-100, 50, 100)\<close> and \<open>(-150, 20, 300)\<close> and peak times \<open>500\<close> and \<open>3500\<close> (\<open>dt = 3000\<close>)
  the emitted track has type 0 and \<open>x2_pos = -150\<close>.
\<close>

theorem long_crosser_keeps_depth:
  "map (\<lambda>t. (type t, x2_pos t))
     (fst (projr (make_tracks [0, 1, 2, 3, 4, 5]
        (replicate 8 \<lparr>HitWireID = \<lparr>TPC = 0, Plane = 2, Wire = 0\<rparr>, PeakTime = 1\<rparr>)
        [[\<lparr>X = - 100, Y = 50, Z = 100\<rparr>, \<lparr>X = - 150, Y = 20, Z = 300\<rparr>]]
        [[500, 3500]] [[5, 7]] ([], [])))) = [(0, - 150)]"
  by (simp add: track_defs)

subsection \<open>C2: the hit-to-track associations\<close>

text \<open>
  C2 says that the associations of a track reference the hits at the indices of its member
  list. The loop of \<^verbatim>\<open>produce\<close> runs \<^verbatim>\<open>hit_i\<close> over the positions of \<^verbatim>\<open>track_hit_idx\<close> and
  passes \<^verbatim>\<open>hitlist[hit_i]\<close>, not \<^verbatim>\<open>hitlist[track_hit_idx[hit_i]]\<close>: for the member list
  \<open>[5, 7]\<close> the associations reference hits 0 and 1.
\<close>

theorem assn_references_positions:
  "snd (projr (make_tracks [0, 1, 2, 3, 4, 5]
        (replicate 8 \<lparr>HitWireID = \<lparr>TPC = 0, Plane = 2, Wire = 0\<rparr>, PeakTime = 1\<rparr>)
        [[\<lparr>X = - 100, Y = 50, Z = 100\<rparr>, \<lparr>X = - 150, Y = 210, Z = 300\<rparr>]]
        [[500, 1500]] [[5, 7]] ([], []))) = [(0, 0), (1, 0)]"
  by (simp add: track_defs upt_0_2)

subsection \<open>C4: secondary buckets when both volumes have a primary line\<close>

text \<open>
  C4 says that the secondary buckets of every volume with a primary line are filled with
  that volume's valid hits. The fill loop tests \<^verbatim>\<open>muon_in_tpc1\<close> only in the \<^verbatim>\<open>else\<close> of
  \<^verbatim>\<open>muon_in_tpc0\<close>: with a primary line in both TPCs a valid plane-0 hit of TPC 1 (wire 5,
  peak time 100) enters no bucket, and \<^verbatim>\<open>hit_10\<close>, \<^verbatim>\<open>hit_11\<close> stay empty.
\<close>

theorem both_volumes_skip_tpc1:
  "fill_induction [\<lparr>HitWireID = \<lparr>TPC = 1, Plane = 0, Wire = 5\<rparr>, PeakTime = 100\<rparr>] 1 True True
     = ([], [], [], [])"
  by (simp add: fill_induction_def induction_step_def trunc_def)

subsection \<open>C5: which endpoints a merge rewrites\<close>

text \<open>
  C5 says that a merge replaces the matched endpoint of segment \<open>j\<close> by the other, not
  matched, endpoint of segment \<open>i\<close>, so that the merged segment spans both. The four
  assignments of the merge pass write the matched endpoint of \<open>i\<close> over the endpoint of
  \<open>j\<close> that did not match. Two pieces of one line, \<open>(100,1000)-(200,1500)\<close> and
  \<open>(210,1550)-(300,2000)\<close>, match at \<open>(200,1500)\<close> (endpoint 0 of \<open>i\<close>) and \<open>(210,1550)\<close>
  (endpoint 1 of \<open>j\<close>); the pass leaves the segment \<open>(200,1500)-(210,1550)\<close>, the gap
  between the pieces, where C5 gives \<open>(300,2000)-(100,1000)\<close>. Segment \<open>i\<close> is voided
  and its members are appended to those of \<open>j\<close>, as C5 says.
\<close>

theorem merge_keeps_matched_endpoints:
  "merge_pass True
     ([[200, 1500, 100, 1000, 20, 10, 20, 10, 735, 169],
       [300, 2000, 210, 1550, 40, 31, 40, 31, 735, 169]],
      [[11, 12], [32, 33]])
   = Inr ([[], [200, 1500, 210, 1550, 40, 31, 40, 31, 735, 169]], [[], [32, 33, 11, 12]])"
  by (simp add: merge_pass_def upt_rec first_match_def counter_def merged_def)

subsection \<open>C10: a merge keeps positions 4 to 9 of the surviving segment\<close>

lemma tail_kept_refl: "tail_kept a a"
  by (simp add: tail_kept_def)

lemma tail_kept_trans: "tail_kept a b \<Longrightarrow> tail_kept b c \<Longrightarrow> tail_kept a c"
  unfolding tail_kept_def by (metis length_0_conv)

lemma merged_tail: "length (merged oi oj k l) = length oj \<and> drop 4 (merged oi oj k l) = drop 4 oj"
  by (simp add: merged_def)

lemma merge_j_tail:
  "merge_j save_hits i js (ols, ohs) = Inr (ols', ohs') \<Longrightarrow> tail_kept ols ols'"
proof (induction js)
  case Nil
  then show ?case by (simp add: tail_kept_refl)
next
  case (Cons j js)
  show ?case
  proof (cases "first_match (ols ! i) (ols ! j)")
    case None
    with Cons show ?thesis by (simp split: if_splits)
  next
    case (Some kl)
    obtain k l where kl: "kl = (k, l)" by (cases kl)
    from Cons.prems Some kl
    have e: "ols' = (ols[j := merged (ols ! i) (ols ! j) k l])[i := []]"
      by (simp add: Let_def split: if_splits)
    have "ols' ! m = [] \<or>
          (length (ols' ! m) = length (ols ! m) \<and> drop 4 (ols' ! m) = drop 4 (ols ! m))"
      if m: "m < length ols" for m
    proof (cases "m = i")
      case True
      with m show ?thesis by (simp add: e)
    next
      case False
      then show ?thesis using m
        by (cases "m = j") (simp_all add: e merged_tail)
    qed
    moreover have "length ols' = length ols"
      by (simp add: e)
    ultimately show ?thesis
      unfolding tail_kept_def by blast
  qed
qed

lemma for_loop_rel:
  assumes step: "\<And>i s s'. body i s = Inr s' \<Longrightarrow> R s s'"
    and refl: "\<And>s. R s s"
    and trans: "\<And>a b c. R a b \<Longrightarrow> R b c \<Longrightarrow> R a c"
  shows "for_loop is body s = Inr s' \<Longrightarrow> R s s'"
proof (induction "is" arbitrary: s)
  case Nil
  then show ?case by (simp add: refl)
next
  case (Cons i "is")
  then show ?case
    by (auto split: sum.splits intro: trans step)
qed

text \<open>
  C10: whatever merges the pass applies, a segment that is not voided at the end has the
  length it had and, from position 4 on (hit indices, data indices, \<open>rho\<close>, \<open>theta\<close>), the
  values it had before the pass; only positions 0 to 3 can differ.
\<close>

theorem merge_pass_keeps_tail:
  assumes "merge_pass save_hits (ols, ohs) = Inr (ols', ohs')"
  shows "length ols' = length ols \<and>
     (\<forall>j < length ols. ols' ! j = [] \<or>
        (length (ols' ! j) = length (ols ! j) \<and> drop 4 (ols' ! j) = drop 4 (ols ! j)))"
proof -
  have "tail_kept (fst (ols, ohs)) (fst (ols', ohs'))"
  proof (rule for_loop_rel [where R = "\<lambda>s s'. tail_kept (fst s) (fst s')"])
    show "for_loop [0 ..< length (fst (ols, ohs))]
            (\<lambda>i s'. merge_j save_hits i [Suc i ..< length (fst s')] s') (ols, ohs)
          = Inr (ols', ohs')"
      using assms by (simp add: merge_pass_def)
  next
    fix i s s'
    assume "merge_j save_hits i [Suc i ..< length (fst s)] s = Inr s'"
    then show "tail_kept (fst s) (fst s')"
      by (cases s; cases s') (auto dest: merge_j_tail)
  qed (auto intro: tail_kept_refl tail_kept_trans)
  then show ?thesis by (simp add: tail_kept_def)
qed

lemma merge_pass_example:
  "merge_pass False
     ([[520, 900, 500, 800, 7, 3, 7, 3, 10, 90], [640, 1500, 530, 950, 19, 12, 19, 12, 12, 91]], [])
   = Inr ([[], [520, 900, 530, 950, 19, 12, 19, 12, 12, 91]], [])"
  by (simp add: merge_pass_def upt_rec first_match_def counter_def merged_def)

theorem merge_pass_keeps_tail_witness:
  "merge_pass False
     ([[520, 900, 500, 800, 7, 3, 7, 3, 10, 90], [640, 1500, 530, 950, 19, 12, 19, 12, 12, 91]], [])
   = Inr ([[], [520, 900, 530, 950, 19, 12, 19, 12, 12, 91]], [])
   \<and> drop 4 ([[], [520, 900, 530, 950, 19, 12, 19, 12, 12, 91]] ! 1)
     = drop 4 ([[520, 900, 500, 800, 7, 3, 7, 3, 10, 90],
                [640, 1500, 530, 950, 19, 12, 19, 12, 12, 91 :: int]] ! 1)"
  using merge_pass_keeps_tail [OF merge_pass_example] merge_pass_example
  by simp

subsection \<open>C9: a missing or empty hit collection\<close>

lemma Hough_no_points:
  "Hough nfi rng [] [a, b, c, d, e] save_hits lines hit_idx = Inr (lines, hit_idx)"
  by (simp add: Hough_def Hough_run_def at_idx_def merge_pass_def)

text \<open>
  C9: when \<^verbatim>\<open>getByLabel\<close> fails, or the hit collection is empty, \<^verbatim>\<open>produce\<close> ends without
  an error, every bucket and every other member is empty, and the track collection and
  the association collection put into the event are empty.
\<close>

theorem produce_without_hits:
  "produce g nfi rng cfg None = Inr (reset, [], []) \<and>
   produce g nfi rng cfg (Some []) = Inr (reset, [], [])"
  by (simp add: produce_def fill_collection_def collection_hough_def HoughParam_def
      Hough_no_points reset_def)

subsection \<open>C7: the endpoint matcher emits non-degenerate pairs and clears the line\<close>

lemma ebind_eq_Inr: "ebind m f = Inr v \<longleftrightarrow> (\<exists>x. m = Inr x \<and> f x = Inr v)"
  by (cases m) (simp_all add: ebind_def)

lemma at_idx_eq_Inr: "at_idx v i = Inr x \<longleftrightarrow> (0 \<le> i \<and> i < int (length v) \<and> x = v ! nat i)"
  by (auto simp: at_idx_def)

lemma try_match_Some:
  assumes "try_match g hitlist range' lc li = Inr (Some (e1, e2, a, b))"
  shows "Mag2 e1 \<noteq> 0 \<and> Mag2 e2 \<noteq> 0"
  using assms
  by (auto simp: try_match_def Let_def ebind_eq_Inr case_prod_beta split: if_splits)

lemma FindEndpoints_j_cases:
  assumes "FindEndpoints_j g hitlist range' lines_ind hit_idx i js (lc, me, mt, mh) = Inr (lc', me', mt', mh')"
  shows "(lc' = lc \<and> me' = me) \<or>
         (i < length lc \<and> lc' = lc[i := []] \<and> (\<exists>e1 e2. me' = me @ [[e1, e2]] \<and> Mag2 e1 \<noteq> 0 \<and> Mag2 e2 \<noteq> 0))"
  using assms
proof (induction js)
  case Nil
  then show ?case by simp
next
  case (Cons j js)
  from Cons.prems obtain lcl li r where
    lcl: "at_idx lc (int i) = Inr lcl" and li: "at_idx lines_ind (int j) = Inr li"
    and r: "try_match g hitlist range' lcl li = Inr r"
    and rest: "(case r of
         None \<Rightarrow> FindEndpoints_j g hitlist range' lines_ind hit_idx i js (lc, me, mt, mh)
       | Some (endpoint1, endpoint2, peakT0_col, peakT1_col) \<Rightarrow>
           ebind (at_idx hit_idx (int i)) (\<lambda>indices.
             Inr (lc[i := []], me @ [[endpoint1, endpoint2]], mt @ [[peakT0_col, peakT1_col]],
                  mh @ [indices]))) = Inr (lc', me', mt', mh')"
    by (auto simp: ebind_eq_Inr)
  show ?case
  proof (cases r)
    case None
    with rest Cons.IH show ?thesis by simp
  next
    case (Some q)
    obtain e1 e2 a b where q: "q = (e1, e2, a, b)" by (cases q)
    from r Some q have "Mag2 e1 \<noteq> 0 \<and> Mag2 e2 \<noteq> 0"
      by (auto dest: try_match_Some)
    moreover from rest Some q have "lc' = lc[i := []] \<and> me' = me @ [[e1, e2]]"
      by (auto simp: ebind_eq_Inr)
    moreover from lcl have "i < length lc" by (simp add: at_idx_eq_Inr)
    ultimately show ?thesis by blast
  qed
qed

lemma FindEndpoints_i_cases:
  assumes "FindEndpoints_i g hitlist range' lines_ind hit_idx i (lc, me, mt, mh) = Inr (lc', me', mt', mh')"
  shows "(lc' = lc \<and> me' = me) \<or>
         (i < length lc \<and> lc ! i \<noteq> [] \<and> lc' = lc[i := []] \<and>
          (\<exists>e1 e2. me' = me @ [[e1, e2]] \<and> Mag2 e1 \<noteq> 0 \<and> Mag2 e2 \<noteq> 0))"
proof (cases "lc ! i = []")
  case True
  with assms show ?thesis
    by (auto simp: FindEndpoints_i_def ebind_eq_Inr at_idx_eq_Inr)
next
  case False
  with assms have "FindEndpoints_j g hitlist range' lines_ind hit_idx i [0 ..< length lines_ind]
       (lc, me, mt, mh) = Inr (lc', me', mt', mh')"
    by (auto simp: FindEndpoints_i_def ebind_eq_Inr at_idx_eq_Inr)
  from FindEndpoints_j_cases [OF this] False show ?thesis by blast
qed

lemma FindEndpoints_loop:
  assumes "for_loop is (FindEndpoints_i g hitlist range' lines_ind hit_idx) (lc, me, mt, mh)
           = Inr (lc', me', mt', mh')"
    and "distinct is"
  shows "\<exists>new. me' = me @ new \<and> list_all good_pair new \<and> length lc' = length lc \<and>
      (\<forall>m. m \<notin> set is \<longrightarrow> lc' ! m = lc ! m) \<and>
      (\<forall>m. lc' ! m = lc ! m \<or> (m < length lc \<and> lc' ! m = [])) \<and>
      length new = length (filter (\<lambda>m. lc ! m \<noteq> [] \<and> lc' ! m = []) is)"
  using assms
proof (induction "is" arbitrary: lc me mt mh)
  case Nil
  then show ?case by simp
next
  case (Cons i "is")
  from Cons.prems(1) obtain lc1 me1 mt1 mh1 where
    step: "FindEndpoints_i g hitlist range' lines_ind hit_idx i (lc, me, mt, mh) = Inr (lc1, me1, mt1, mh1)"
    and rest: "for_loop is (FindEndpoints_i g hitlist range' lines_ind hit_idx) (lc1, me1, mt1, mh1)
           = Inr (lc', me', mt', mh')"
    by (auto split: sum.splits)
  from Cons.prems(2) have d: "distinct is" and ni: "i \<notin> set is" by simp_all
  from Cons.IH [OF rest d] obtain new where
    n1: "me' = me1 @ new" and n2: "list_all good_pair new" and n3: "length lc' = length lc1"
    and n4: "\<forall>m. m \<notin> set is \<longrightarrow> lc' ! m = lc1 ! m"
    and n5: "\<forall>m. lc' ! m = lc1 ! m \<or> (m < length lc1 \<and> lc' ! m = [])"
    and n6: "length new = length (filter (\<lambda>m. lc1 ! m \<noteq> [] \<and> lc' ! m = []) is)"
    by blast
  from FindEndpoints_i_cases [OF step] show ?case
  proof
    assume "lc1 = lc \<and> me1 = me"
    then have e: "lc1 = lc" "me1 = me" by simp_all
    have "\<not> (lc ! i \<noteq> [] \<and> lc' ! i = [])"
      using n4 ni e by auto
    then have "length new = length (filter (\<lambda>m. lc ! m \<noteq> [] \<and> lc' ! m = []) (i # is))"
      using n6 e by simp
    with n1 n2 n3 n4 n5 e show ?thesis
      by (intro exI [of _ new]) auto
  next
    assume a: "i < length lc \<and> lc ! i \<noteq> [] \<and> lc1 = lc[i := []] \<and>
      (\<exists>e1 e2. me1 = me @ [[e1, e2]] \<and> Mag2 e1 \<noteq> 0 \<and> Mag2 e2 \<noteq> 0)"
    then obtain e1 e2 where me1: "me1 = me @ [[e1, e2]]" and g: "good_pair [e1, e2]"
      by (auto simp: good_pair_def)
    from a have lc1: "lc1 = lc[i := []]" and il: "i < length lc" and ne: "lc ! i \<noteq> []" by simp_all
    have same: "\<And>m. m \<in> set is \<Longrightarrow> lc1 ! m = lc ! m"
      using ni lc1 by (metis nth_list_update_neq)
    have "lc' ! i = []"
      using n4 ni lc1 il by simp
    then have "length (filter (\<lambda>m. lc ! m \<noteq> [] \<and> lc' ! m = []) (i # is))
       = Suc (length (filter (\<lambda>m. lc ! m \<noteq> [] \<and> lc' ! m = []) is))"
      using ne by simp
    also have "filter (\<lambda>m. lc ! m \<noteq> [] \<and> lc' ! m = []) is
             = filter (\<lambda>m. lc1 ! m \<noteq> [] \<and> lc' ! m = []) is"
      by (rule filter_cong) (simp_all add: same)
    finally have cnt: "length ([e1, e2] # new) = length (filter (\<lambda>m. lc ! m \<noteq> [] \<and> lc' ! m = []) (i # is))"
      using n6 by simp
    have p4: "\<forall>m. m \<notin> set (i # is) \<longrightarrow> lc' ! m = lc ! m"
      using n4 lc1 by auto
    have p5: "\<forall>m. lc' ! m = lc ! m \<or> (m < length lc \<and> lc' ! m = [])"
    proof
      fix m
      show "lc' ! m = lc ! m \<or> (m < length lc \<and> lc' ! m = [])"
        using n5 [rule_format, of m] lc1 il
        by (cases "m = i") auto
    qed
    show ?thesis
      using n1 n2 n3 me1 g cnt p4 p5 lc1
      by (intro exI [of _ "[e1, e2] # new"]) simp
  qed
qed

text \<open>
  C7: every endpoint pair that a call of \<^verbatim>\<open>FindEndpoints\<close> appends has two points of
  nonzero squared magnitude. The call only clears primary lines, and it appends exactly
  as many pairs as it clears lines that were not cleared before: each emission clears
  its primary line, and a cleared line emits nothing, in this call or a later one.
\<close>

theorem FindEndpoints_emits:
  assumes "FindEndpoints g hitlist lines_ind hit_idx range' (lc, me, mt, mh) = Inr (lc', me', mt', mh')"
  shows "\<exists>new. me' = me @ new \<and>
      list_all (\<lambda>pr. length pr = 2 \<and> Mag2 (pr ! 0) \<noteq> 0 \<and> Mag2 (pr ! 1) \<noteq> 0) new \<and>
      length lc' = length lc \<and>
      list_all (\<lambda>m. lc' ! m = lc ! m \<or> lc' ! m = []) [0 ..< length lc] \<and>
      length new = length (filter (\<lambda>m. lc ! m \<noteq> [] \<and> lc' ! m = []) [0 ..< length lc])"
proof (cases "lines_ind = []")
  case True
  with assms show ?thesis
    by (auto simp: FindEndpoints_def list_all_iff)
next
  case False
  with assms have "for_loop [0 ..< length lc] (FindEndpoints_i g hitlist range' lines_ind hit_idx)
      (lc, me, mt, mh) = Inr (lc', me', mt', mh')"
    by (simp add: FindEndpoints_def)
  from FindEndpoints_loop [OF this] obtain new where
    "me' = me @ new" "list_all good_pair new" "length lc' = length lc"
    "\<forall>m. lc' ! m = lc ! m \<or> (m < length lc \<and> lc' ! m = [])"
    "length new = length (filter (\<lambda>m. lc ! m \<noteq> [] \<and> lc' ! m = []) [0 ..< length lc])"
    by auto
  then show ?thesis
    by (intro exI [of _ new]) (auto simp: list_all_iff good_pair_def)
qed

lemma FindEndpoints_example:
  "FindEndpoints
     \<lparr>WireIDsIntersect = (\<lambda>a b. (True, \<lparr>X = 10, Y = 20, Z = 30\<rparr>)),
      WireEndPoints = (\<lambda>w. (origin, origin))\<rparr>
     (replicate 2 \<lparr>HitWireID = \<lparr>TPC = 0, Plane = 2, Wire = 0\<rparr>, PeakTime = 1\<rparr>)
     [[310, 2910, 105, 210, 1, 0, 1, 0, 0, 90]] [[0, 1]] 30
     ([[300, 2900, 100, 200, 1, 0, 1, 0, 0, 90]], [], [], [])
   = Inr ([[]], [[\<lparr>X = 10, Y = 20, Z = 30\<rparr>, \<lparr>X = 10, Y = 20, Z = 30\<rparr>]], [[200, 2900]], [[0, 1]])"
  by (simp add: FindEndpoints_def FindEndpoints_i_def try_match_def resolve_pair_def
      at_idx_def Mag2_def)

theorem FindEndpoints_emits_witness:
  "FindEndpoints
     \<lparr>WireIDsIntersect = (\<lambda>a b. (True, \<lparr>X = 10, Y = 20, Z = 30\<rparr>)),
      WireEndPoints = (\<lambda>w. (origin, origin))\<rparr>
     (replicate 2 \<lparr>HitWireID = \<lparr>TPC = 0, Plane = 2, Wire = 0\<rparr>, PeakTime = 1\<rparr>)
     [[310, 2910, 105, 210, 1, 0, 1, 0, 0, 90]] [[0, 1]] 30
     ([[300, 2900, 100, 200, 1, 0, 1, 0, 0, 90]], [], [], [])
   = Inr ([[]], [[\<lparr>X = 10, Y = 20, Z = 30\<rparr>, \<lparr>X = 10, Y = 20, Z = 30\<rparr>]], [[200, 2900]], [[0, 1]])
   \<and> (\<exists>new. [[\<lparr>X = 10, Y = 20, Z = 30\<rparr>, \<lparr>X = 10, Y = 20, Z = 30\<rparr>]] = [] @ new \<and>
      list_all (\<lambda>pr. length pr = 2 \<and> Mag2 (pr ! 0) \<noteq> 0 \<and> Mag2 (pr ! 1) \<noteq> 0) new \<and>
      length new = 1)"
  using FindEndpoints_emits [OF FindEndpoints_example] FindEndpoints_example
  by simp

end
